theory Spec2Isabelle
  imports Main "HOL-Library.Word" "HOL-Library.Sublist"
begin

section \<open>Package fmt: the part of Sprintf that the manager uses\<close>

text \<open>
  Go strings are byte sequences; \<open>string\<close> (a list of 8-bit characters) models them.
  The manager formats with two kinds of operands only: an \<open>int64\<close> (the entity
  identifier) and strings (endpoint, bucket name, CDN host, object keys).
\<close>

datatype arg = Int64 "64 word" | Str string

text \<open>
  \<open>fmtInteger\<close> in base 10 without flags, width or precision: the operand is read as
  signed, a negative one is negated as an unsigned 64-bit value (so the least
  \<open>int64\<close> keeps its magnitude), the digits are produced least significant first
  and a minus sign is put in front.
\<close>

definition digit :: "nat \<Rightarrow> char" where
  "digit d = char_of (48 + d)"

fun digits :: "nat \<Rightarrow> string" where
  "digits u = (if u < 10 then [digit u] else digits (u div 10) @ [digit (u mod 10)])"

definition fmtInteger :: "64 word \<Rightarrow> string" where
  "fmtInteger v = (if sint v < 0 then CHR ''-'' # digits (unat (- v)) else digits (unat v))"

text \<open>\<open>reflect.TypeOf(arg).String()\<close> for the two operand types.\<close>

fun typeString :: "arg \<Rightarrow> string" where
  "typeString (Int64 v) = ''int64''"
| "typeString (Str s) = ''string''"

text \<open>The operand under \<open>%v\<close> with no flag: decimal for an integer, the bytes of a string.\<close>

fun printV :: "arg \<Rightarrow> string" where
  "printV (Int64 v) = fmtInteger v"
| "printV (Str s) = s"

text \<open>\<open>badVerb\<close>: \<open>%!verb(type=value)\<close>.\<close>

definition badVerb :: "char \<Rightarrow> arg \<Rightarrow> string" where
  "badVerb verb a = ''%!'' @ [verb] @ ''('' @ typeString a @ ''='' @ printV a @ '')''"

text \<open>
  \<open>printArg\<close> for a verb with no flag, width or precision. \<open>%T\<close> prints the type and
  \<open>%p\<close> is a bad verb for both operand types. An integer takes \<open>%v\<close> and \<open>%d\<close> in
  decimal; a string takes \<open>%v\<close> and \<open>%s\<close> verbatim. The remaining verbs that package
  fmt accepts for these types (\<open>b o O x X c q U\<close> for an integer, \<open>x X q\<close> for a
  string) are outside this model: the result is \<open>None\<close>. Every other verb is a bad verb.
\<close>

fun printArg :: "arg \<Rightarrow> char \<Rightarrow> string option" where
  "printArg a verb =
     (if verb = CHR ''T'' then Some (typeString a)
      else if verb = CHR ''p'' then Some (badVerb verb a)
      else case a of
        Int64 v \<Rightarrow>
          if verb = CHR ''v'' \<or> verb = CHR ''d'' then Some (fmtInteger v)
          else if verb \<in> set ''boOxXcqU'' then None
          else Some (badVerb verb a)
      | Str s \<Rightarrow>
          if verb = CHR ''v'' \<or> verb = CHR ''s'' then Some s
          else if verb \<in> set ''xXq'' then None
          else Some (badVerb verb a))"

text \<open>
  After the last directive: operands that no verb consumed are reported as
  \<open>%!(EXTRA type=value, ...)\<close>.
\<close>

fun extraList :: "arg list \<Rightarrow> string" where
  "extraList [] = []"
| "extraList [a] = typeString a @ ''='' @ printV a"
| "extraList (a # as) = typeString a @ ''='' @ printV a @ '', '' @ extraList as"

definition extraArgs :: "arg list \<Rightarrow> nat \<Rightarrow> string" where
  "extraArgs a argNum =
     (if argNum < length a then ''%!(EXTRA '' @ extraList (drop argNum a) @ '')'' else [])"

text \<open>
  A byte that can stand as the verb right after the percent sign: not a flag
  (\<open># 0 + -\<close> and space), not the start of a width, a precision or an argument index
  (a digit, \<open>*\<close>, \<open>.\<close>, \<open>[\<close>), and a single-byte (ASCII) character.
\<close>

definition plainVerb :: "char \<Rightarrow> bool" where
  "plainVerb c \<longleftrightarrow> c \<notin> set ''#0+- 123456789*.['' \<and> of_char c < (128 :: nat)"

text \<open>
  The tail of \<open>doPrintf\<close> that is not modelled: what package fmt prints from a
  directive with a flag, a width, a precision, an argument index, a multi-byte verb or
  one of the verbs left out of \<open>printArg\<close> on. It is a parameter: the remaining
  format (from its percent sign), the operands and the index of the next operand.
  Up to such a directive no operand has been reordered and every verb starts with its
  flags cleared, so the rest of the output depends on nothing else.
\<close>

type_synonym fmtRest = "string \<Rightarrow> arg list \<Rightarrow> nat \<Rightarrow> string"

text \<open>
  \<open>doPrintf\<close>: bytes up to a percent sign are copied; \<open>%%\<close> prints a percent sign and
  takes no operand; a percent sign that ends the format prints \<open>%!(NOVERB)\<close>; a verb
  with no operand left prints \<open>%!verb(MISSING)\<close>; otherwise the verb prints the next
  operand.
\<close>

fun doPrintf :: "fmtRest \<Rightarrow> string \<Rightarrow> arg list \<Rightarrow> nat \<Rightarrow> string" where
  "doPrintf rest [] a argNum = extraArgs a argNum"
| "doPrintf rest (c # fs) a argNum =
     (if c \<noteq> CHR ''%'' then c # doPrintf rest fs a argNum
      else case fs of
        [] \<Rightarrow> ''%!(NOVERB)'' @ extraArgs a argNum
      | verb # fs' \<Rightarrow>
          if verb = CHR ''%'' then CHR ''%'' # doPrintf rest fs' a argNum
          else if \<not> plainVerb verb then rest (c # fs) a argNum
          else if length a \<le> argNum then
            ''%!'' @ [verb] @ ''(MISSING)'' @ doPrintf rest fs' a argNum
          else case printArg (a ! argNum) verb of
            None \<Rightarrow> rest (c # fs) a argNum
          | Some s \<Rightarrow> s @ doPrintf rest fs' a (argNum + 1))"

definition Sprintf :: "fmtRest \<Rightarrow> string \<Rightarrow> arg list \<Rightarrow> string" where
  "Sprintf rest format a = doPrintf rest format a 0"

section \<open>domain.go\<close>

record Config =
  Endpoint :: string
  Region :: string
  AccessKey :: string
  SecretKey :: string
  Name :: string
  RootCatalog :: string
  CDN :: string
  PresignedURLExpireTime :: "64 word"

type_synonym CatalogType = string

definition PathCustomCatalog :: CatalogType where
  "PathCustomCatalog = ''custom_catalog''"

record StoragePath =
  RootCatalog :: string
  CatalogType :: CatalogType
  EntityID :: "64 word"
  CustomPath :: string

text \<open>
  \<open>BucketFile.File\<close> is an \<open>io.ReadSeeker\<close>: \<open>None\<close> is the nil interface value,
  \<open>Some bs\<close> a stream holding the bytes \<open>bs\<close>.
\<close>

record BucketFile =
  File :: "string option"
  Name :: string

section \<open>The object-storage client\<close>

text \<open>
  Go errors: \<open>New msg\<close> is an error with that message (\<open>fmt.Errorf\<close> with a constant
  text, or any error of the client); \<open>Wrap prefix e\<close> is
  \<open>fmt.Errorf(prefix + "%w", e)\<close>.
\<close>

datatype error = New string | Wrap string error

text \<open>
  What a method gives back: a value with a nil error, an error (the value returned with
  it is the zero value), or a panic (a nil pointer dereference).
\<close>

datatype 'a result = Ok 'a | Err error | Panic

text \<open>
  \<open>types.Object\<close> and \<open>types.ObjectIdentifier\<close>: only the key is read or written; it
  is a \<open>*string\<close>, \<open>None\<close> when nil.
\<close>

datatype Object = Object (Key: "string option")

datatype ObjectIdentifier = ObjectIdentifier (IdKey: "string option")

datatype ACL = ObjectCannedACLPublicRead

text \<open>The requests the manager sends: the fields it sets in each input struct.\<close>

datatype request =
  ListObjectsV2Input string string
| PutObjectInput string string "string option" ACL
| DeleteObjectsInput string "ObjectIdentifier list" bool
| PresignPutObjectInput string string "64 word"

text \<open>
  The client is the external collaborator: each operation is a function of its input
  and of the state \<open>'w\<close> of the storage service, giving an answer and the next state.
  The arguments follow the fields of \<open>request\<close>: bucket and prefix; bucket, key, body
  and ACL; bucket, object identifiers and the quiet flag; bucket, key and expiry.
\<close>

record 'w Client =
  ListObjectsV2 :: "string \<Rightarrow> string \<Rightarrow> 'w \<Rightarrow> (error + Object list) \<times> 'w"
  PutObject :: "string \<Rightarrow> string \<Rightarrow> string option \<Rightarrow> ACL \<Rightarrow> 'w \<Rightarrow> (error + unit) \<times> 'w"
  DeleteObjects :: "string \<Rightarrow> ObjectIdentifier list \<Rightarrow> bool \<Rightarrow> 'w \<Rightarrow> (error + unit) \<times> 'w"
  PresignPutObject :: "string \<Rightarrow> string \<Rightarrow> 64 word \<Rightarrow> 'w \<Rightarrow> (error + string) \<times> 'w"

text \<open>
  The outside world as a method sees it: the state of the service and the log of the
  calls made on the client so far, oldest first.
\<close>

record 'w world =
  service :: 'w
  sent :: "request list"

definition callListObjectsV2 ::
  "'w Client \<Rightarrow> string \<Rightarrow> string \<Rightarrow> 'w world \<Rightarrow> (error + Object list) \<times> 'w world" where
  "callListObjectsV2 cl bucket pfx w =
     (case ListObjectsV2 cl bucket pfx (service w) of
        (r, s') \<Rightarrow> (r, \<lparr>service = s', sent = sent w @ [ListObjectsV2Input bucket pfx]\<rparr>))"

definition callPutObject ::
  "'w Client \<Rightarrow> string \<Rightarrow> string \<Rightarrow> string option \<Rightarrow> ACL \<Rightarrow> 'w world \<Rightarrow> (error + unit) \<times> 'w world" where
  "callPutObject cl bucket k body acl w =
     (case PutObject cl bucket k body acl (service w) of
        (r, s') \<Rightarrow> (r, \<lparr>service = s', sent = sent w @ [PutObjectInput bucket k body acl]\<rparr>))"

definition callDeleteObjects ::
  "'w Client \<Rightarrow> string \<Rightarrow> ObjectIdentifier list \<Rightarrow> bool \<Rightarrow> 'w world \<Rightarrow> (error + unit) \<times> 'w world" where
  "callDeleteObjects cl bucket ids quiet w =
     (case DeleteObjects cl bucket ids quiet (service w) of
        (r, s') \<Rightarrow> (r, \<lparr>service = s', sent = sent w @ [DeleteObjectsInput bucket ids quiet]\<rparr>))"

definition callPresignPutObject ::
  "'w Client \<Rightarrow> string \<Rightarrow> string \<Rightarrow> 64 word \<Rightarrow> 'w world \<Rightarrow> (error + string) \<times> 'w world" where
  "callPresignPutObject cl bucket k expires w =
     (case PresignPutObject cl bucket k expires (service w) of
        (r, s') \<Rightarrow> (r, \<lparr>service = s', sent = sent w @ [PresignPutObjectInput bucket k expires]\<rparr>))"

section \<open>s3\_manager.go\<close>

text \<open>
  \<open>cfg\<close> is a pointer to the caller's \<open>Config\<close>: an address into a heap of
  configurations. The nil pointer is an address the heap does not map; reading through
  it panics. \<open>storagePaths\<close> is a Go map, \<open>None\<close> while it is nil.
\<close>

type_synonym addr = nat

type_synonym heap = "addr \<rightharpoonup> Config"

record 'w s3Manager =
  client :: "'w Client"
  cfg :: addr
  storagePaths :: "(CatalogType \<rightharpoonup> string) option"

text \<open>Reading a Go map: a nil map has no entry.\<close>

definition lookup :: "('k \<rightharpoonup> 'v) option \<Rightarrow> 'k \<Rightarrow> 'v option" where
  "lookup m k = (case m of None \<Rightarrow> None | Some f \<Rightarrow> f k)"

definition GetCatalogPattern :: "fmtRest \<Rightarrow> 'w s3Manager \<Rightarrow> StoragePath \<Rightarrow> string" where
  "GetCatalogPattern rest r storagePath =
     (case lookup (storagePaths r) (CatalogType storagePath) of
        None \<Rightarrow> []
      | Some pathPattern \<Rightarrow>
          Sprintf rest (StoragePath.RootCatalog storagePath @ pathPattern)
            [Int64 (EntityID storagePath)])"

definition AddCatalog :: "'w s3Manager \<Rightarrow> CatalogType \<Rightarrow> string \<Rightarrow> 'w s3Manager" where
  "AddCatalog r catalogType pathPattern =
     (let m = (case storagePaths r of None \<Rightarrow> Map.empty | Some f \<Rightarrow> f)
      in r\<lparr>storagePaths := Some (m(catalogType \<mapsto> pathPattern))\<rparr>)"

text \<open>
  \<open>NewS3Manager\<close>. \<open>LoadDefaultConfig\<close> (from endpoint, region, access key and secret
  key) and \<open>NewFromConfig\<close> belong to the SDK and are parameters. The configuration is
  changed through the pointer before anything can fail, so the heap is part of the
  result.
\<close>

definition NewS3Manager ::
  "(string \<Rightarrow> string \<Rightarrow> string \<Rightarrow> string \<Rightarrow> error + 'b) \<Rightarrow> ('b \<Rightarrow> 'w Client) \<Rightarrow>
   heap \<Rightarrow> addr \<Rightarrow> bool \<Rightarrow> 'w s3Manager result \<times> heap" where
  "NewS3Manager LoadDefaultConfig NewFromConfig h cfgp isTestServer =
     (case h cfgp of
        None \<Rightarrow> (Panic, h)
      | Some c \<Rightarrow>
          let c' = (if isTestServer
                    then c\<lparr>Config.RootCatalog := Config.RootCatalog c @ ''test/''\<rparr> else c);
              h' = h(cfgp \<mapsto> c')
          in case LoadDefaultConfig (Endpoint c') (Region c') (AccessKey c') (SecretKey c') of
               Inl err \<Rightarrow> (Err (Wrap ''NewS3Manager/LoadDefaultConfig: '' err), h')
             | Inr bucketCfg \<Rightarrow>
                 (Ok (AddCatalog \<lparr>client = NewFromConfig bucketCfg, cfg = cfgp, storagePaths = None\<rparr>
                        PathCustomCatalog ''%s''), h'))"

text \<open>
  \<open>GetObjectURL\<close> reads the configuration and the registry only: it takes no world
  and returns none.
\<close>

definition GetObjectURL ::
  "fmtRest \<Rightarrow> heap \<Rightarrow> 'w s3Manager \<Rightarrow> StoragePath \<Rightarrow> string \<Rightarrow> string result" where
  "GetObjectURL rest h r storagePath fileName =
     (if fileName = [] then Err (New ''GetObjectURL: file name is empty'')
      else case h (cfg r) of
        None \<Rightarrow> Panic
      | Some c \<Rightarrow>
          let storagePath = storagePath\<lparr>StoragePath.RootCatalog := Config.RootCatalog c\<rparr>;
              fullPath = GetCatalogPattern rest r storagePath @ fileName
          in if CDN c \<noteq> [] then Ok (Sprintf rest ''%s/%s'' [Str (CDN c), Str fullPath])
             else Ok (Sprintf rest ''%s/%s/%s'' [Str (Endpoint c), Str (Config.Name c), Str fullPath]))"

text \<open>The loop of \<open>GetFiles\<close> over \<open>output.Contents\<close>, appending to \<open>fileURLs\<close>.\<close>

fun GetFiles_loop :: "fmtRest \<Rightarrow> Config \<Rightarrow> string list \<Rightarrow> Object list \<Rightarrow> string list" where
  "GetFiles_loop rest c fileURLs [] = fileURLs"
| "GetFiles_loop rest c fileURLs (obj # objs) =
     (case Key obj of
        None \<Rightarrow> GetFiles_loop rest c fileURLs objs
      | Some k \<Rightarrow>
          GetFiles_loop rest c
            (fileURLs @ [Sprintf rest ''%s/%s/%s'' [Str (Endpoint c), Str (Config.Name c), Str k]]) objs)"

definition GetFiles ::
  "fmtRest \<Rightarrow> heap \<Rightarrow> 'w s3Manager \<Rightarrow> string \<Rightarrow> 'w world \<Rightarrow> string list result \<times> 'w world" where
  "GetFiles rest h r pfx w =
     (case h (cfg r) of
        None \<Rightarrow> (Panic, w)
      | Some c \<Rightarrow>
          (case callListObjectsV2 (client r) (Config.Name c) pfx w of
             (Inl err, w') \<Rightarrow> (Err (Wrap ''GetFiles/ListObjectsV2: '' err), w')
           | (Inr contents, w') \<Rightarrow> (Ok (GetFiles_loop rest c [] contents), w')))"

definition PutFile ::
  "fmtRest \<Rightarrow> heap \<Rightarrow> 'w s3Manager \<Rightarrow> StoragePath \<Rightarrow> BucketFile option \<Rightarrow> 'w world \<Rightarrow>
   string result \<times> 'w world" where
  "PutFile rest h r storagePath data w =
     (case data of
        None \<Rightarrow> (Err (New ''PutFile: invalid file data''), w)
      | Some d \<Rightarrow>
          if File d = None \<or> BucketFile.Name d = [] then (Err (New ''PutFile: invalid file data''), w)
          else case h (cfg r) of
            None \<Rightarrow> (Panic, w)
          | Some c \<Rightarrow>
              let storagePath = storagePath\<lparr>StoragePath.RootCatalog := Config.RootCatalog c\<rparr>;
                  fullPath = GetCatalogPattern rest r storagePath @ BucketFile.Name d
              in case callPutObject (client r) (Config.Name c) fullPath (File d)
                        ObjectCannedACLPublicRead w of
                   (Inl err, w') \<Rightarrow> (Err (Wrap ''PutFile/PutObject: '' err), w')
                 | (Inr u, w') \<Rightarrow>
                     (case GetObjectURL rest h r storagePath (BucketFile.Name d) of
                        Err err \<Rightarrow> (Err (Wrap ''PutFile/GetObjectURL: '' err), w')
                      | Ok fileURL \<Rightarrow> (Ok fileURL, w')
                      | Panic \<Rightarrow> (Panic, w')))"

text \<open>The loop of \<open>DeleteFiles\<close> over \<open>objects.Contents\<close>, appending to \<open>objectIds\<close>.\<close>

fun DeleteFiles_loop :: "ObjectIdentifier list \<Rightarrow> Object list \<Rightarrow> ObjectIdentifier list" where
  "DeleteFiles_loop objectIds [] = objectIds"
| "DeleteFiles_loop objectIds (item # items) =
     DeleteFiles_loop (objectIds @ [ObjectIdentifier (Key item)]) items"

definition DeleteFiles ::
  "fmtRest \<Rightarrow> heap \<Rightarrow> 'w s3Manager \<Rightarrow> StoragePath \<Rightarrow> string \<Rightarrow> 'w world \<Rightarrow>
   unit result \<times> 'w world" where
  "DeleteFiles rest h r storagePath fileName w =
     (case h (cfg r) of
        None \<Rightarrow> (Panic, w)
      | Some c \<Rightarrow>
          let storagePath = storagePath\<lparr>StoragePath.RootCatalog := Config.RootCatalog c\<rparr>;
              fullPath = GetCatalogPattern rest r storagePath @ fileName
          in case callListObjectsV2 (client r) (Config.Name c) fullPath w of
               (Inl err, w') \<Rightarrow> (Err (Wrap ''DeleteFiles/ListObjectsV2: '' err), w')
             | (Inr contents, w') \<Rightarrow>
                 if length contents = 0 then (Ok (), w')
                 else case callDeleteObjects (client r) (Config.Name c)
                             (DeleteFiles_loop [] contents) True w' of
                        (Inl err, w'') \<Rightarrow> (Err (Wrap ''DeleteFiles/DeleteObjects: '' err), w'')
                      | (Inr u, w'') \<Rightarrow> (Ok (), w''))"

definition GetUploadPresignedURL ::
  "fmtRest \<Rightarrow> heap \<Rightarrow> 'w s3Manager \<Rightarrow> StoragePath \<Rightarrow> string \<Rightarrow> 64 word \<Rightarrow> 'w world \<Rightarrow>
   string result \<times> 'w world" where
  "GetUploadPresignedURL rest h r storagePath fileName expireTime w =
     (if fileName = [] then (Err (New ''GetUploadPresignedURL: file name is empty''), w)
      else case h (cfg r) of
        None \<Rightarrow> (Panic, w)
      | Some c \<Rightarrow>
          let storagePath = storagePath\<lparr>StoragePath.RootCatalog := Config.RootCatalog c\<rparr>;
              fullPath = GetCatalogPattern rest r storagePath @ fileName;
              expireTime = (if expireTime = 0 then PresignedURLExpireTime c else expireTime)
          in case callPresignPutObject (client r) (Config.Name c) fullPath expireTime w of
               (Inl err, w') \<Rightarrow>
                 (Err (Wrap ''GetUploadPresignedURL/PresignPutObject: failed to create presigned request: '' err), w')
             | (Inr url, w') \<Rightarrow> (Ok url, w'))"

section \<open>Concrete values for running the model\<close>

text \<open>
  Every theorem below holds for every \<open>fmtRest\<close>. To run the model on a concrete
  input one has to be fixed; this one prints a marker, so a result that reached a
  directive outside the model shows it.
\<close>

definition anyRest :: fmtRest where
  "anyRest f a k = ''<unmodelled>''"

text \<open>
  An in-memory storage service, standing in for the real one when a method is run on a
  concrete input: one bucket, a list of keys with their bodies. Listing answers with the
  keys that start with the prefix, in order; putting replaces the key; deleting removes
  the named keys; presigning needs no state. It never fails.
\<close>

definition memClient :: "(string \<times> string) list Client" where
  "memClient =
     \<lparr>ListObjectsV2 = (\<lambda>bucket pfx s.
        (Inr (map (\<lambda>kv. Object (Some (fst kv))) (filter (\<lambda>kv. prefix pfx (fst kv)) s)), s)),
      PutObject = (\<lambda>bucket k body acl s.
        (Inr (), (k, case body of None \<Rightarrow> [] | Some bs \<Rightarrow> bs) # filter (\<lambda>kv. fst kv \<noteq> k) s)),
      DeleteObjects = (\<lambda>bucket ids quiet s.
        (Inr (), filter (\<lambda>kv. Some (fst kv) \<notin> set (map IdKey ids)) s)),
      PresignPutObject = (\<lambda>bucket k expires s.
        (Inr (''https://signed.example.com/'' @ bucket @ ''/'' @ k), s))\<rparr>"

text \<open>
  The configuration of the specification's end-to-end example (with a default expiry
  of 15 minutes, in nanoseconds as \<open>time.Duration\<close> counts), and a manager as
  \<open>NewS3Manager\<close> leaves it (the custom catalog registered) with the catalog
  \<open>product\<close> added.
\<close>

definition exampleConfig :: Config where
  "exampleConfig =
     \<lparr>Endpoint = ''https://s3.example.com'', Region = ''us-east-1'', AccessKey = ''AK'',
      SecretKey = ''SK'', Name = ''mybucket'', Config.RootCatalog = ''/svc/'', CDN = [],
      PresignedURLExpireTime = 900000000000\<rparr>"

definition exampleManager :: "(string \<times> string) list s3Manager" where
  "exampleManager =
     AddCatalog (AddCatalog \<lparr>client = memClient, cfg = 0, storagePaths = None\<rparr>
       PathCustomCatalog ''%s'') ''product'' ''products/%d/''"

section \<open>Formatting lemmas\<close>

lemma digit_simps:
  "digit 0 = CHR ''0''" "digit 1 = CHR ''1''" "digit 2 = CHR ''2''" "digit 3 = CHR ''3''"
  "digit 4 = CHR ''4''" "digit 5 = CHR ''5''" "digit 6 = CHR ''6''" "digit 7 = CHR ''7''"
  "digit 8 = CHR ''8''" "digit 9 = CHR ''9''" "digit (Suc 0) = CHR ''1''"
  by code_simp+

lemmas fmt_eval =
  Sprintf_def plainVerb_def fmtInteger_def badVerb_def extraArgs_def digit_simps

text \<open>The decimal form at the ends of the \<open>int64\<close> range.\<close>

lemma fmtInteger_examples:
  "fmtInteger 0 = ''0''"
  "fmtInteger 42 = ''42''"
  "fmtInteger (- 7) = ''-7''"
  "fmtInteger 9223372036854775807 = ''9223372036854775807''"
  "fmtInteger (- 9223372036854775808) = ''-9223372036854775808''"
  by (simp_all add: fmtInteger_def digit_simps)

text \<open>Bytes before the first percent sign are copied and change nothing else.\<close>

lemma doPrintf_literal:
  "CHR ''%'' \<notin> set r \<Longrightarrow> doPrintf rest (r @ pat) a k = r @ doPrintf rest pat a k"
  by (induction r) auto


text \<open>A format without a percent sign and with no operand prints itself.\<close>

lemma doPrintf_no_percent:
  "CHR ''%'' \<notin> set r \<Longrightarrow> length a \<le> k \<Longrightarrow> doPrintf rest r a k = r"
  by (induction r) (auto simp: extraArgs_def)

text \<open>One \<open>%d\<close> slot between literal text, one integer operand.\<close>

lemma Sprintf_one_slot:
  assumes "CHR ''%'' \<notin> set pre" and "CHR ''%'' \<notin> set post"
  shows "Sprintf rest (pre @ ''%d'' @ post) [Int64 n] = pre @ fmtInteger n @ post"
proof -
  have "doPrintf rest (''%d'' @ post) [Int64 n] 0 = fmtInteger n @ doPrintf rest post [Int64 n] 1"
    by (simp add: plainVerb_def)
  moreover have "doPrintf rest post [Int64 n] 1 = post"
    using assms(2) by (simp add: doPrintf_no_percent)
  ultimately show ?thesis
    using assms(1) by (simp add: Sprintf_def doPrintf_literal)
qed

text \<open>The two constant formats of the URL builders, with string operands.\<close>

lemma Sprintf_s_s:
  "Sprintf rest ''%s/%s'' [Str x, Str y] = x @ ''/'' @ y"
  by (simp add: Sprintf_def plainVerb_def extraArgs_def)

lemma Sprintf_s_s_s:
  "Sprintf rest ''%s/%s/%s'' [Str x, Str y, Str z] = x @ ''/'' @ y @ ''/'' @ z"
  by (simp add: Sprintf_def plainVerb_def extraArgs_def)

section \<open>The loops\<close>

lemma GetFiles_loop_eq:
  "GetFiles_loop rest c acc objs =
     acc @ map (\<lambda>k. Endpoint c @ ''/'' @ Config.Name c @ ''/'' @ k) (List.map_filter Key objs)"
  by (induction objs arbitrary: acc)
     (auto simp: Sprintf_s_s_s split: option.splits)

lemma DeleteFiles_loop_eq:
  "DeleteFiles_loop acc items = acc @ map (\<lambda>item. ObjectIdentifier (Key item)) items"
  by (induction items arbitrary: acc) auto

section \<open>The example manager and the in-memory service\<close>

lemma lookup_example:
  "lookup (storagePaths exampleManager) ''product'' = Some ''products/%d/''"
  "lookup (storagePaths exampleManager) ''custom_catalog'' = Some ''%s''"
  "lookup (storagePaths exampleManager) ''user'' = None"
  by (simp_all add: exampleManager_def AddCatalog_def lookup_def PathCustomCatalog_def)

lemma exampleManager_sel:
  "client exampleManager = memClient" "cfg exampleManager = 0"
  by (simp_all add: exampleManager_def AddCatalog_def)

lemma memClient_sel:
  "ListObjectsV2 memClient bucket pfx s =
     (Inr (map (\<lambda>kv. Object (Some (fst kv))) (filter (\<lambda>kv. prefix pfx (fst kv)) s)), s)"
  "DeleteObjects memClient bucket ids quiet s =
     (Inr (), filter (\<lambda>kv. Some (fst kv) \<notin> set (map IdKey ids)) s)"
  "PresignPutObject memClient bucket k expires s =
     (Inr (''https://signed.example.com/'' @ bucket @ ''/'' @ k), s)"
  by (simp_all add: memClient_def)

lemma product42:
  "GetCatalogPattern anyRest exampleManager
     \<lparr>StoragePath.RootCatalog = ''/svc/'', CatalogType = ''product'', EntityID = 42,
      CustomPath = q\<rparr> = ''/svc/products/42/''"
  by (simp add: GetCatalogPattern_def lookup_example fmt_eval)

section \<open>The path resolver\<close>

text \<open>
  The manager as \<open>NewS3Manager\<close> builds it has the custom catalog registered with the
  pattern \<open>%s\<close>. \<open>GetCatalogPattern\<close> has no branch on the catalog type and never
  reads \<open>CustomPath\<close>: whatever the custom path \<open>q\<close> is, the \<open>int64\<close> entity
  identifier is formatted under \<open>%s\<close>, which package fmt reports as a bad verb.
\<close>

lemma custom_catalog_ignores_CustomPath:
  "map_result
     (\<lambda>m. GetCatalogPattern rest m
        \<lparr>StoragePath.RootCatalog = [], CatalogType = PathCustomCatalog, EntityID = n,
         CustomPath = q\<rparr>)
     (fst (NewS3Manager (\<lambda>e r a s. Inr b) N [p \<mapsto> c] p t))
   = Ok (''%!s(int64='' @ fmtInteger n @ '')'')"
  by (simp add: NewS3Manager_def GetCatalogPattern_def AddCatalog_def lookup_def Let_def
        Sprintf_def plainVerb_def badVerb_def extraArgs_def)

text \<open>
  C1. The claim: for the custom catalog type the resolver substitutes \<open>CustomPath\<close>
  into the identity pattern and branches on the catalog type to pick the field. The
  code at a concrete input: the manager built by \<open>NewS3Manager\<close> from the example
  configuration, the custom catalog type, entity 7 and the custom path
  \<open>custom/path/\<close>. The result is not \<open>custom/path/\<close> but the bad-verb report for
  the integer.
\<close>

theorem C1_custom_catalog_formats_EntityID:
  "map_result
     (\<lambda>m. GetCatalogPattern anyRest m
        \<lparr>StoragePath.RootCatalog = [], CatalogType = PathCustomCatalog, EntityID = 7,
         CustomPath = ''custom/path/''\<rparr>)
     (fst (NewS3Manager (\<lambda>e r a s. Inr ()) (\<lambda>b. memClient) [0 \<mapsto> exampleConfig] 0 False))
   = Ok ''%!s(int64=7)''"
  by (simp add: NewS3Manager_def GetCatalogPattern_def AddCatalog_def lookup_def Let_def
        fmt_eval)

text \<open>
  C3. For a storage path whose catalog type has no entry in the registry (the map is
  nil or lacks the key), \<open>GetCatalogPattern\<close> returns the empty string, whatever
  \<open>RootCatalog\<close>, \<open>EntityID\<close> and \<open>CustomPath\<close> are. The result is a plain
  string: there is no error to return.
\<close>

theorem C3_unregistered_is_empty:
  assumes "lookup (storagePaths r) (CatalogType storagePath) = None"
  shows "GetCatalogPattern rest r storagePath = []"
  using assms by (simp add: GetCatalogPattern_def)

theorem C3_unregistered_is_empty_witness:
  "lookup (storagePaths exampleManager) ''user'' = None \<and>
   GetCatalogPattern anyRest exampleManager
     \<lparr>StoragePath.RootCatalog = ''/svc/'', CatalogType = ''user'', EntityID = 42,
      CustomPath = ''custom/path/''\<rparr> = []"
  using C3_unregistered_is_empty [where r = exampleManager and rest = anyRest and storagePath =
    "\<lparr>StoragePath.RootCatalog = ''/svc/'', CatalogType = ''user'', EntityID = 42,
      CustomPath = ''custom/path/''\<rparr>"]
  by (simp add: lookup_example)




section \<open>Construction\<close>

text \<open>
  C2. The claim: with the test-mode flag set, construction appends exactly one
  \<open>test/\<close> segment to the root catalog, and not cumulatively across repeated
  construction calls with the same Config. \<open>NewS3Manager\<close> takes the Config by
  pointer and appends in place: a second construction from the same Config finds the
  segment of the first and appends another.
\<close>

theorem C2_repeated_construction_counterexample:
  "map_option Config.RootCatalog
     (snd (NewS3Manager (\<lambda>e r a s. Inr ()) (\<lambda>b. memClient)
        (snd (NewS3Manager (\<lambda>e r a s. Inr ()) (\<lambda>b. memClient) [0 \<mapsto> exampleConfig] 0 True))
        0 True) 0)
   = Some ''/svc/test/test/''"
  by (simp add: NewS3Manager_def exampleConfig_def)

text \<open>
  C2, amended. Each construction call with the flag set appends exactly one \<open>test/\<close>
  segment to the \<open>RootCatalog\<close> of the Config its pointer refers to, in place and
  whether or not the SDK configuration loads afterwards; with the flag unset the Config
  is unchanged; a second construction with the flag set on the same Config appends a
  second segment.
\<close>

theorem C2_test_mode_appends_in_place:
  assumes "h p = Some c"
  shows "snd (NewS3Manager L N h p True)
           = h(p \<mapsto> c\<lparr>Config.RootCatalog := Config.RootCatalog c @ ''test/''\<rparr>) \<and>
         snd (NewS3Manager L N h p False) = h \<and>
         snd (NewS3Manager L N (snd (NewS3Manager L N h p True)) p True)
           = h(p \<mapsto> c\<lparr>Config.RootCatalog := Config.RootCatalog c @ ''test/'' @ ''test/''\<rparr>)"
proof -
  have one: "snd (NewS3Manager L N g p True)
               = g(p \<mapsto> d\<lparr>Config.RootCatalog := Config.RootCatalog d @ ''test/''\<rparr>)"
    if "g p = Some d" for g d
    using that by (simp add: NewS3Manager_def Let_def split: sum.split)
  have off: "snd (NewS3Manager L N h p False) = h"
    using assms by (auto simp: NewS3Manager_def Let_def split: sum.split)
  show ?thesis
    using assms by (simp add: one off)
qed

theorem C2_test_mode_appends_in_place_witness:
  "[0 \<mapsto> exampleConfig] (0::nat) = Some exampleConfig \<and>
   snd (NewS3Manager (\<lambda>e r a s. Inr ()) (\<lambda>b. memClient) [0 \<mapsto> exampleConfig] 0 True)
     = [0 \<mapsto> exampleConfig\<lparr>Config.RootCatalog := ''/svc/test/''\<rparr>] \<and>
   snd (NewS3Manager (\<lambda>e r a s. Inr ()) (\<lambda>b. memClient) [0 \<mapsto> exampleConfig] 0 False)
     = [0 \<mapsto> exampleConfig] \<and>
   snd (NewS3Manager (\<lambda>e r a s. Inr ()) (\<lambda>b. memClient)
          (snd (NewS3Manager (\<lambda>e r a s. Inr ()) (\<lambda>b. memClient) [0 \<mapsto> exampleConfig] 0 True))
          0 True)
     = [0 \<mapsto> exampleConfig\<lparr>Config.RootCatalog := ''/svc/test/test/''\<rparr>]"
proof -
  have h0: "[0 \<mapsto> exampleConfig] (0::nat) = Some exampleConfig"
    by simp
  have root: "Config.RootCatalog exampleConfig = ''/svc/''"
    by (simp add: exampleConfig_def)
  note t = C2_test_mode_appends_in_place [where h = "[0 \<mapsto> exampleConfig]" and p = 0
    and c = exampleConfig and L = "\<lambda>e r a s. Inr ()" and N = "\<lambda>b. memClient", OF h0]
  have "snd (NewS3Manager (\<lambda>e r a s. Inr ()) (\<lambda>b. memClient) [0 \<mapsto> exampleConfig] 0 True)
          = [0 \<mapsto> exampleConfig\<lparr>Config.RootCatalog := ''/svc/test/''\<rparr>]"
    using t [THEN conjunct1] by (simp add: root)
  moreover have
    "snd (NewS3Manager (\<lambda>e r a s. Inr ()) (\<lambda>b. memClient) [0 \<mapsto> exampleConfig] 0 False)
          = [0 \<mapsto> exampleConfig]"
    using t [THEN conjunct2, THEN conjunct1] by simp
  moreover have
    "snd (NewS3Manager (\<lambda>e r a s. Inr ()) (\<lambda>b. memClient)
          (snd (NewS3Manager (\<lambda>e r a s. Inr ()) (\<lambda>b. memClient) [0 \<mapsto> exampleConfig] 0 True))
          0 True)
          = [0 \<mapsto> exampleConfig\<lparr>Config.RootCatalog := ''/svc/test/test/''\<rparr>]"
    using t [THEN conjunct2, THEN conjunct2] by (simp add: root)
  ultimately show ?thesis
    using h0 by blast
qed

section \<open>The facade\<close>

text \<open>
  C5. \<open>PutFile\<close> called with a nil descriptor, with a descriptor whose stream is nil
  or with one whose name is empty returns the invalid-input error and leaves the world
  as it was: no request is sent (the log is unchanged) and the service state is the
  same. The check comes before the configuration is read, so it holds for every heap.
\<close>

theorem C5_invalid_file_data:
  assumes "data = None \<or> (\<exists>d. data = Some d \<and> (File d = None \<or> BucketFile.Name d = []))"
  shows "PutFile rest h r storagePath data w = (Err (New ''PutFile: invalid file data''), w)"
  using assms by (auto simp: PutFile_def)

theorem C5_invalid_file_data_witness:
  "PutFile anyRest [0 \<mapsto> exampleConfig] exampleManager
     \<lparr>StoragePath.RootCatalog = [], CatalogType = ''product'', EntityID = 42, CustomPath = []\<rparr>
     None \<lparr>service = [], sent = []\<rparr>
     = (Err (New ''PutFile: invalid file data''), \<lparr>service = [], sent = []\<rparr>) \<and>
   PutFile anyRest [0 \<mapsto> exampleConfig] exampleManager
     \<lparr>StoragePath.RootCatalog = [], CatalogType = ''product'', EntityID = 42, CustomPath = []\<rparr>
     (Some \<lparr>File = None, Name = ''cert.pdf''\<rparr>) \<lparr>service = [], sent = []\<rparr>
     = (Err (New ''PutFile: invalid file data''), \<lparr>service = [], sent = []\<rparr>) \<and>
   PutFile anyRest [0 \<mapsto> exampleConfig] exampleManager
     \<lparr>StoragePath.RootCatalog = [], CatalogType = ''product'', EntityID = 42, CustomPath = []\<rparr>
     (Some \<lparr>File = Some ''bytes'', Name = []\<rparr>) \<lparr>service = [], sent = []\<rparr>
     = (Err (New ''PutFile: invalid file data''), \<lparr>service = [], sent = []\<rparr>)"
  using
    C5_invalid_file_data [where data = None and rest = anyRest and h = "[0 \<mapsto> exampleConfig]"
      and r = exampleManager and w = "\<lparr>service = [], sent = []\<rparr>" and storagePath =
      "\<lparr>StoragePath.RootCatalog = [], CatalogType = ''product'', EntityID = 42, CustomPath = []\<rparr>"]
    C5_invalid_file_data [where data = "Some \<lparr>File = None, Name = ''cert.pdf''\<rparr>"
      and rest = anyRest and h = "[0 \<mapsto> exampleConfig]"
      and r = exampleManager and w = "\<lparr>service = [], sent = []\<rparr>" and storagePath =
      "\<lparr>StoragePath.RootCatalog = [], CatalogType = ''product'', EntityID = 42, CustomPath = []\<rparr>"]
    C5_invalid_file_data [where data = "Some \<lparr>File = Some ''bytes'', Name = []\<rparr>"
      and rest = anyRest and h = "[0 \<mapsto> exampleConfig]"
      and r = exampleManager and w = "\<lparr>service = [], sent = []\<rparr>" and storagePath =
      "\<lparr>StoragePath.RootCatalog = [], CatalogType = ''product'', EntityID = 42, CustomPath = []\<rparr>"]
  by simp

text \<open>
  C6. When the listing under the computed prefix succeeds with no object,
  \<open>DeleteFiles\<close> returns a nil error and the listing is the only request it sent:
  no \<open>DeleteObjects\<close> request is made.
\<close>

theorem C6_empty_listing:
  assumes "h (cfg r) = Some c"
    and "ListObjectsV2 (client r) (Config.Name c)
           (GetCatalogPattern rest r (storagePath\<lparr>StoragePath.RootCatalog := Config.RootCatalog c\<rparr>)
              @ fileName) (service w) = (Inr [], s')"
  shows "DeleteFiles rest h r storagePath fileName w =
           (Ok (), \<lparr>service = s', sent = sent w @
              [ListObjectsV2Input (Config.Name c)
                 (GetCatalogPattern rest r (storagePath\<lparr>StoragePath.RootCatalog := Config.RootCatalog c\<rparr>)
                    @ fileName)]\<rparr>)"
  using assms by (simp add: DeleteFiles_def callListObjectsV2_def Let_def)

theorem C6_empty_listing_witness:
  "DeleteFiles anyRest [0 \<mapsto> exampleConfig] exampleManager
     \<lparr>StoragePath.RootCatalog = [], CatalogType = ''product'', EntityID = 42, CustomPath = []\<rparr>
     ''cert.pdf'' \<lparr>service = [(''/svc/products/7/cert.pdf'', ''bytes'')], sent = []\<rparr>
   = (Ok (), \<lparr>service = [(''/svc/products/7/cert.pdf'', ''bytes'')],
               sent = [ListObjectsV2Input ''mybucket'' ''/svc/products/42/cert.pdf'']\<rparr>)"
  using C6_empty_listing [where h = "[0 \<mapsto> exampleConfig]" and r = exampleManager
    and c = exampleConfig and rest = anyRest and fileName = "''cert.pdf''"
    and w = "\<lparr>service = [(''/svc/products/7/cert.pdf'', ''bytes'')], sent = []\<rparr>"
    and s' = "[(''/svc/products/7/cert.pdf'', ''bytes'')]" and storagePath =
      "\<lparr>StoragePath.RootCatalog = [], CatalogType = ''product'', EntityID = 42, CustomPath = []\<rparr>"]
  by (simp add: exampleManager_sel memClient_sel product42 exampleConfig_def)

text \<open>
  C7. For a non-empty file name \<open>GetObjectURL\<close> returns the CDN host, a slash and
  the full key when a CDN host is configured, and endpoint, bucket and full key joined
  by slashes when it is empty. The full key is \<open>GetCatalogPattern\<close> of the storage
  path with its root replaced by the configured one, followed by the file name. The
  function takes no world and returns none: it reads the configuration and the registry
  and does nothing else.
\<close>

theorem C7_object_url:
  assumes "fileName \<noteq> []" and "h (cfg r) = Some c"
  shows "GetObjectURL rest h r storagePath fileName =
           Ok (if CDN c \<noteq> []
               then CDN c @ ''/'' @
                    GetCatalogPattern rest r (storagePath\<lparr>StoragePath.RootCatalog := Config.RootCatalog c\<rparr>)
                    @ fileName
               else Endpoint c @ ''/'' @ Config.Name c @ ''/'' @
                    GetCatalogPattern rest r (storagePath\<lparr>StoragePath.RootCatalog := Config.RootCatalog c\<rparr>)
                    @ fileName)"
  using assms by (simp add: GetObjectURL_def Let_def Sprintf_s_s Sprintf_s_s_s)

theorem C7_object_url_witness:
  "GetObjectURL anyRest [0 \<mapsto> exampleConfig] exampleManager
     \<lparr>StoragePath.RootCatalog = ''ignored/'', CatalogType = ''product'', EntityID = 42,
      CustomPath = []\<rparr> ''cert.pdf''
     = Ok ''https://s3.example.com/mybucket//svc/products/42/cert.pdf'' \<and>
   GetObjectURL anyRest [0 \<mapsto> exampleConfig\<lparr>CDN := ''https://cdn.example.com''\<rparr>] exampleManager
     \<lparr>StoragePath.RootCatalog = ''ignored/'', CatalogType = ''product'', EntityID = 42,
      CustomPath = []\<rparr> ''cert.pdf''
     = Ok ''https://cdn.example.com//svc/products/42/cert.pdf''"
  using
    C7_object_url [where fileName = "''cert.pdf''" and h = "[0 \<mapsto> exampleConfig]"
      and r = exampleManager and c = exampleConfig and rest = anyRest and storagePath =
      "\<lparr>StoragePath.RootCatalog = ''ignored/'', CatalogType = ''product'', EntityID = 42,
        CustomPath = []\<rparr>"]
    C7_object_url [where fileName = "''cert.pdf''"
      and h = "[0 \<mapsto> exampleConfig\<lparr>CDN := ''https://cdn.example.com''\<rparr>]"
      and r = exampleManager and c = "exampleConfig\<lparr>CDN := ''https://cdn.example.com''\<rparr>"
      and rest = anyRest and storagePath =
      "\<lparr>StoragePath.RootCatalog = ''ignored/'', CatalogType = ''product'', EntityID = 42,
        CustomPath = []\<rparr>"]
  by (simp add: exampleManager_sel product42 exampleConfig_def)

text \<open>
  C8. With an empty file name \<open>GetUploadPresignedURL\<close> returns the invalid-input
  error and sends nothing. With a non-empty one the presign request it makes carries
  the configured default expiry when \<open>expireTime\<close> is zero, and \<open>expireTime\<close>
  itself otherwise.
\<close>

theorem C8_presign_expiry:
  "(fileName = [] \<longrightarrow>
      GetUploadPresignedURL rest h r storagePath fileName expireTime w
        = (Err (New ''GetUploadPresignedURL: file name is empty''), w)) \<and>
   (fileName \<noteq> [] \<and> h (cfg r) = Some c \<longrightarrow>
      sent (snd (GetUploadPresignedURL rest h r storagePath fileName expireTime w))
        = sent w @
          [PresignPutObjectInput (Config.Name c)
             (GetCatalogPattern rest r (storagePath\<lparr>StoragePath.RootCatalog := Config.RootCatalog c\<rparr>)
                @ fileName)
             (if expireTime = 0 then PresignedURLExpireTime c else expireTime)])"
  by (auto simp: GetUploadPresignedURL_def callPresignPutObject_def Let_def
           split: prod.splits sum.splits)

theorem C8_presign_expiry_witness:
  "GetUploadPresignedURL anyRest [0 \<mapsto> exampleConfig] exampleManager
     \<lparr>StoragePath.RootCatalog = [], CatalogType = ''product'', EntityID = 42, CustomPath = []\<rparr>
     [] 60000000000 \<lparr>service = [], sent = []\<rparr>
     = (Err (New ''GetUploadPresignedURL: file name is empty''), \<lparr>service = [], sent = []\<rparr>) \<and>
   sent (snd (GetUploadPresignedURL anyRest [0 \<mapsto> exampleConfig] exampleManager
     \<lparr>StoragePath.RootCatalog = [], CatalogType = ''product'', EntityID = 42, CustomPath = []\<rparr>
     ''cert.pdf'' 0 \<lparr>service = [], sent = []\<rparr>))
     = [PresignPutObjectInput ''mybucket'' ''/svc/products/42/cert.pdf'' 900000000000] \<and>
   sent (snd (GetUploadPresignedURL anyRest [0 \<mapsto> exampleConfig] exampleManager
     \<lparr>StoragePath.RootCatalog = [], CatalogType = ''product'', EntityID = 42, CustomPath = []\<rparr>
     ''cert.pdf'' 60000000000 \<lparr>service = [], sent = []\<rparr>))
     = [PresignPutObjectInput ''mybucket'' ''/svc/products/42/cert.pdf'' 60000000000]"
  using
    C8_presign_expiry [where fileName = "[]" and expireTime = 60000000000 and rest = anyRest
      and h = "[0 \<mapsto> exampleConfig]" and r = exampleManager and c = exampleConfig
      and w = "\<lparr>service = [], sent = []\<rparr>" and storagePath =
      "\<lparr>StoragePath.RootCatalog = [], CatalogType = ''product'', EntityID = 42, CustomPath = []\<rparr>"]
    C8_presign_expiry [where fileName = "''cert.pdf''" and expireTime = 0 and rest = anyRest
      and h = "[0 \<mapsto> exampleConfig]" and r = exampleManager and c = exampleConfig
      and w = "\<lparr>service = [], sent = []\<rparr>" and storagePath =
      "\<lparr>StoragePath.RootCatalog = [], CatalogType = ''product'', EntityID = 42, CustomPath = []\<rparr>"]
    C8_presign_expiry [where fileName = "''cert.pdf''" and expireTime = 60000000000 and rest = anyRest
      and h = "[0 \<mapsto> exampleConfig]" and r = exampleManager and c = exampleConfig
      and w = "\<lparr>service = [], sent = []\<rparr>" and storagePath =
      "\<lparr>StoragePath.RootCatalog = [], CatalogType = ''product'', EntityID = 42, CustomPath = []\<rparr>"]
  by (simp add: exampleManager_sel product42 exampleConfig_def)

text \<open>
  C9. When the listing succeeds, \<open>GetFiles\<close> returns one URL for each listed object
  that has a key, in order: endpoint, bucket name and key joined by slashes. Objects
  with a nil key are skipped and the call still succeeds. The CDN host of the
  configuration does not occur in the result.
\<close>

theorem C9_raw_urls:
  assumes "h (cfg r) = Some c"
    and "ListObjectsV2 (client r) (Config.Name c) pfx (service w) = (Inr contents, s')"
  shows "GetFiles rest h r pfx w =
           (Ok (map (\<lambda>k. Endpoint c @ ''/'' @ Config.Name c @ ''/'' @ k)
                  (List.map_filter Key contents)),
            \<lparr>service = s', sent = sent w @ [ListObjectsV2Input (Config.Name c) pfx]\<rparr>)"
  using assms by (simp add: GetFiles_def callListObjectsV2_def GetFiles_loop_eq)

theorem C9_raw_urls_witness:
  "GetFiles anyRest [0 \<mapsto> exampleConfig\<lparr>CDN := ''https://cdn.example.com''\<rparr>]
     (exampleManager\<lparr>client := memClient\<lparr>ListObjectsV2 :=
        \<lambda>bucket pfx s. (Inr [Object (Some ''a/x.txt''), Object None, Object (Some ''a/y.txt'')], s)\<rparr>\<rparr>)
     ''a/'' \<lparr>service = [], sent = []\<rparr>
   = (Ok [''https://s3.example.com/mybucket/a/x.txt'', ''https://s3.example.com/mybucket/a/y.txt''],
      \<lparr>service = [], sent = [ListObjectsV2Input ''mybucket'' ''a/'']\<rparr>)"
  using C9_raw_urls [where h = "[0 \<mapsto> exampleConfig\<lparr>CDN := ''https://cdn.example.com''\<rparr>]"
    and r = "exampleManager\<lparr>client := memClient\<lparr>ListObjectsV2 :=
        \<lambda>bucket pfx s. (Inr [Object (Some ''a/x.txt''), Object None, Object (Some ''a/y.txt'')], s)\<rparr>\<rparr>"
    and c = "exampleConfig\<lparr>CDN := ''https://cdn.example.com''\<rparr>" and rest = anyRest
    and pfx = "''a/''" and w = "\<lparr>service = [], sent = []\<rparr>" and s' = "[]"
    and contents = "[Object (Some ''a/x.txt''), Object None, Object (Some ''a/y.txt'')]"]
  by (simp add: exampleManager_sel exampleConfig_def List.map_filter_simps)

text \<open>
  C10. For a storage path whose catalog type is not registered and an empty file name,
  the prefix \<open>DeleteFiles\<close> computes is the empty string, whatever the configured
  root catalog is. The listing request carries that empty prefix, which every key
  starts with, and whatever objects the listing answers with are the ones named in the
  \<open>DeleteObjects\<close> request that follows.
\<close>

theorem C10_unregistered_empty_prefix:
  assumes "lookup (storagePaths r) (CatalogType storagePath) = None"
    and "h (cfg r) = Some c"
    and "fileName = []"
    and "ListObjectsV2 (client r) (Config.Name c) [] (service w) = (res, s')"
  shows "GetCatalogPattern rest r (storagePath\<lparr>StoragePath.RootCatalog := Config.RootCatalog c\<rparr>)
           @ fileName = [] \<and>
         sent (snd (DeleteFiles rest h r storagePath fileName w)) =
           sent w @ ListObjectsV2Input (Config.Name c) [] #
             (case res of
                Inl err \<Rightarrow> []
              | Inr contents \<Rightarrow>
                  if contents = [] then []
                  else [DeleteObjectsInput (Config.Name c)
                          (map (\<lambda>item. ObjectIdentifier (Key item)) contents) True]) \<and>
         (\<forall>k :: string. prefix [] k)"
  using assms
  by (auto simp: DeleteFiles_def GetCatalogPattern_def callListObjectsV2_def
        callDeleteObjects_def DeleteFiles_loop_eq Let_def split: prod.splits sum.splits)

theorem C10_unregistered_empty_prefix_witness:
  "lookup (storagePaths exampleManager) ''user'' = None \<and>
   sent (snd (DeleteFiles anyRest [0 \<mapsto> exampleConfig] exampleManager
     \<lparr>StoragePath.RootCatalog = [], CatalogType = ''user'', EntityID = 42, CustomPath = []\<rparr> []
     \<lparr>service = [(''/svc/products/42/cert.pdf'', ''a''), (''other/data.bin'', ''b'')], sent = []\<rparr>))
   = [ListObjectsV2Input ''mybucket'' [],
      DeleteObjectsInput ''mybucket''
        [ObjectIdentifier (Some ''/svc/products/42/cert.pdf''),
         ObjectIdentifier (Some ''other/data.bin'')] True] \<and>
   service (snd (DeleteFiles anyRest [0 \<mapsto> exampleConfig] exampleManager
     \<lparr>StoragePath.RootCatalog = [], CatalogType = ''user'', EntityID = 42, CustomPath = []\<rparr> []
     \<lparr>service = [(''/svc/products/42/cert.pdf'', ''a''), (''other/data.bin'', ''b'')], sent = []\<rparr>))
   = []"
proof -
  have run: "DeleteFiles anyRest [0 \<mapsto> exampleConfig] exampleManager
     \<lparr>StoragePath.RootCatalog = [], CatalogType = ''user'', EntityID = 42, CustomPath = []\<rparr> []
     \<lparr>service = [(''/svc/products/42/cert.pdf'', ''a''), (''other/data.bin'', ''b'')], sent = []\<rparr>
     = (Ok (), \<lparr>service = [], sent = [ListObjectsV2Input ''mybucket'' [],
      DeleteObjectsInput ''mybucket''
        [ObjectIdentifier (Some ''/svc/products/42/cert.pdf''),
         ObjectIdentifier (Some ''other/data.bin'')] True]\<rparr>)"
    by (simp add: DeleteFiles_def GetCatalogPattern_def lookup_example exampleManager_sel
          memClient_sel callListObjectsV2_def callDeleteObjects_def exampleConfig_def)
  show ?thesis
    using C10_unregistered_empty_prefix [where r = exampleManager and rest = anyRest
      and h = "[0 \<mapsto> exampleConfig]" and c = exampleConfig and fileName = "[]"
      and w = "\<lparr>service = [(''/svc/products/42/cert.pdf'', ''a''), (''other/data.bin'', ''b'')],
               sent = []\<rparr>"
      and res = "Inr [Object (Some ''/svc/products/42/cert.pdf''), Object (Some ''other/data.bin'')]"
      and s' = "[(''/svc/products/42/cert.pdf'', ''a''), (''other/data.bin'', ''b'')]"
      and storagePath =
        "\<lparr>StoragePath.RootCatalog = [], CatalogType = ''user'', EntityID = 42, CustomPath = []\<rparr>"]
    by (simp add: run lookup_example)
qed

end
